theory Spec2Isabelle
  imports Main "HOL-Library.Word"
begin

section \<open>Attributes (include/onnc/IR/Compute/Attributes.h)\<close>

text \<open>The enumeration \<^verbatim>\<open>Attribute::Type\<close>, in the order of the header.\<close>

datatype Type =
    kFloat
  | kInteger
  | kString
  | kTensor
  | kGraph
  | kFloatVec
  | kIntegerVec
  | kStringVec
  | kTensorVec
  | kGraphVec

text \<open>
  \<^verbatim>\<open>class Attribute\<close> has the single data member \<^verbatim>\<open>m_Kind\<close>. The derived class
  templates add one member each, so they are record extensions of the base record, and
  a base-class operation applies to a derived object through the record scheme (as a
  base-class member function does through \<^verbatim>\<open>this\<close>).
\<close>

record Attribute =
  m_Kind :: Type

definition kind :: "'z Attribute_scheme \<Rightarrow> Type" where
  "kind a = m_Kind a"

definition Attribute_ctor :: "Type \<Rightarrow> Attribute" where
  "Attribute_ctor pKind = \<lparr>m_Kind = pKind\<rparr>"

definition Attribute_copy :: "'z Attribute_scheme \<Rightarrow> Attribute" where
  "Attribute_copy pCopy = \<lparr>m_Kind = kind pCopy\<rparr>"

text \<open>\<^verbatim>\<open>Attribute::operator=\<close>: writes \<^verbatim>\<open>m_Kind\<close> of \<^verbatim>\<open>*this\<close> and returns \<^verbatim>\<open>*this\<close>.\<close>

definition Attribute_assign :: "'z Attribute_scheme \<Rightarrow> 'y Attribute_scheme \<Rightarrow> 'z Attribute_scheme" where
  "Attribute_assign this pCopy = this\<lparr>m_Kind := kind pCopy\<rparr>"

subsection \<open>ScalarAttribute<ValueType, Kind>\<close>

record 'v ScalarAttribute = Attribute +
  m_Value :: 'v

text \<open>The accessor \<^verbatim>\<open>value()\<close>.\<close>

definition value_of :: "'v ScalarAttribute \<Rightarrow> 'v" where
  "value_of a = m_Value a"

text \<open>
  \<^verbatim>\<open>ScalarAttribute(const ValueType& pValue)\<close>; the template argument \<^verbatim>\<open>Kind\<close> is the
  first parameter. The default constructor is the same function at the
  value-initialised payload \<^verbatim>\<open>ValueType()\<close>.
\<close>

definition ScalarAttribute_ctor :: "Type \<Rightarrow> 'v \<Rightarrow> 'v ScalarAttribute" where
  "ScalarAttribute_ctor Kind pValue = Attribute.extend (Attribute_ctor Kind) (ScalarAttribute.fields pValue)"

definition ScalarAttribute_copy :: "'v ScalarAttribute \<Rightarrow> 'v ScalarAttribute" where
  "ScalarAttribute_copy pCopy = Attribute.extend (Attribute_copy pCopy) (ScalarAttribute.fields (value_of pCopy))"

definition ScalarAttribute_assign :: "'v ScalarAttribute \<Rightarrow> 'v ScalarAttribute \<Rightarrow> 'v ScalarAttribute" where
  "ScalarAttribute_assign this pCopy = (Attribute_assign this pCopy)\<lparr>m_Value := value_of pCopy\<rparr>"

definition setValue :: "'v ScalarAttribute \<Rightarrow> 'v \<Rightarrow> 'v ScalarAttribute" where
  "setValue this pValue = this\<lparr>m_Value := pValue\<rparr>"

subsection \<open>VectorAttribute<ValueType, Kind>\<close>

record 'v VectorAttribute = Attribute +
  m_Vector :: "'v list"

definition vector :: "'v VectorAttribute \<Rightarrow> 'v list" where
  "vector a = m_Vector a"

text \<open>
  \<^verbatim>\<open>VectorAttribute(const VectorType&)\<close> and \<^verbatim>\<open>VectorAttribute(VectorType&&)\<close>: both
  initialise \<^verbatim>\<open>m_Vector(pVector)\<close> from the named parameter, which copies it.
\<close>

definition VectorAttribute_ctor :: "Type \<Rightarrow> 'v list \<Rightarrow> 'v VectorAttribute" where
  "VectorAttribute_ctor Kind pVector = Attribute.extend (Attribute_ctor Kind) (VectorAttribute.fields pVector)"

definition VectorAttribute_copy :: "'v VectorAttribute \<Rightarrow> 'v VectorAttribute" where
  "VectorAttribute_copy pCopy = Attribute.extend (Attribute_copy pCopy) (VectorAttribute.fields (vector pCopy))"

definition VectorAttribute_assign :: "'v VectorAttribute \<Rightarrow> 'v VectorAttribute \<Rightarrow> 'v VectorAttribute" where
  "VectorAttribute_assign this pCopy = (Attribute_assign this pCopy)\<lparr>m_Vector := vector pCopy\<rparr>"

text \<open>
  The non-const \<^verbatim>\<open>vector()\<close> returns a reference to \<^verbatim>\<open>m_Vector\<close>: the caller may
  replace the payload through it by any function on the vector.
\<close>

definition vector_update :: "('v list \<Rightarrow> 'v list) \<Rightarrow> 'v VectorAttribute \<Rightarrow> 'v VectorAttribute" where
  "vector_update f this = this\<lparr>m_Vector := f (m_Vector this)\<rparr>"

subsection \<open>Attribute objects in memory\<close>

text \<open>
  Copy construction and copy assignment take the source by const reference and write
  the object at \<^verbatim>\<open>this\<close>. To speak about both objects after the call, the objects of
  one class live in a store indexed by address; an operation on an address that holds
  no object has no result.
\<close>

type_synonym addr = nat

definition Scalar_copy_at :: "(addr \<rightharpoonup> 'v ScalarAttribute) \<Rightarrow> addr \<Rightarrow> addr \<Rightarrow> (addr \<rightharpoonup> 'v ScalarAttribute) option" where
  "Scalar_copy_at h this pCopy =
     (case h pCopy of
        None \<Rightarrow> None
      | Some a \<Rightarrow> Some (h(this \<mapsto> ScalarAttribute_copy a)))"

definition Scalar_assign_at :: "(addr \<rightharpoonup> 'v ScalarAttribute) \<Rightarrow> addr \<Rightarrow> addr \<Rightarrow> (addr \<rightharpoonup> 'v ScalarAttribute) option" where
  "Scalar_assign_at h this pCopy =
     (case h this of
        None \<Rightarrow> None
      | Some t \<Rightarrow>
          (case h pCopy of
             None \<Rightarrow> None
           | Some a \<Rightarrow> Some (h(this \<mapsto> ScalarAttribute_assign t a))))"

definition Vector_copy_at :: "(addr \<rightharpoonup> 'v VectorAttribute) \<Rightarrow> addr \<Rightarrow> addr \<Rightarrow> (addr \<rightharpoonup> 'v VectorAttribute) option" where
  "Vector_copy_at h this pCopy =
     (case h pCopy of
        None \<Rightarrow> None
      | Some a \<Rightarrow> Some (h(this \<mapsto> VectorAttribute_copy a)))"

definition Vector_assign_at :: "(addr \<rightharpoonup> 'v VectorAttribute) \<Rightarrow> addr \<Rightarrow> addr \<Rightarrow> (addr \<rightharpoonup> 'v VectorAttribute) option" where
  "Vector_assign_at h this pCopy =
     (case h this of
        None \<Rightarrow> None
      | Some t \<Rightarrow>
          (case h pCopy of
             None \<Rightarrow> None
           | Some a \<Rightarrow> Some (h(this \<mapsto> VectorAttribute_assign t a))))"

subsection \<open>The objects of one instantiation\<close>

text \<open>
  The objects of the class \<^verbatim>\<open>ScalarAttribute<ValueType, Kind>\<close> that its own members
  can produce: the constructors, the copy constructor, copy assignment from an object
  of the same class, and \<^verbatim>\<open>setValue\<close>. Likewise for \<^verbatim>\<open>VectorAttribute<ValueType, Kind>\<close>,
  with writes through \<^verbatim>\<open>vector()\<close>.
\<close>

inductive_set ScalarAttribute_objs :: "Type \<Rightarrow> 'v ScalarAttribute set" for Kind :: Type where
  S_ctor: "ScalarAttribute_ctor Kind v \<in> ScalarAttribute_objs Kind"
| S_copy: "a \<in> ScalarAttribute_objs Kind \<Longrightarrow> ScalarAttribute_copy a \<in> ScalarAttribute_objs Kind"
| S_assign: "t \<in> ScalarAttribute_objs Kind \<Longrightarrow> a \<in> ScalarAttribute_objs Kind \<Longrightarrow>
     ScalarAttribute_assign t a \<in> ScalarAttribute_objs Kind"
| S_setValue: "a \<in> ScalarAttribute_objs Kind \<Longrightarrow> setValue a v \<in> ScalarAttribute_objs Kind"

inductive_set VectorAttribute_objs :: "Type \<Rightarrow> 'v VectorAttribute set" for Kind :: Type where
  V_ctor: "VectorAttribute_ctor Kind vs \<in> VectorAttribute_objs Kind"
| V_copy: "a \<in> VectorAttribute_objs Kind \<Longrightarrow> VectorAttribute_copy a \<in> VectorAttribute_objs Kind"
| V_assign: "t \<in> VectorAttribute_objs Kind \<Longrightarrow> a \<in> VectorAttribute_objs Kind \<Longrightarrow>
     VectorAttribute_assign t a \<in> VectorAttribute_objs Kind"
| V_update: "a \<in> VectorAttribute_objs Kind \<Longrightarrow> vector_update f a \<in> VectorAttribute_objs Kind"

section \<open>The source graph as the lowering rules see it\<close>

text \<open>
  Modelled from the spec: the classes \<^verbatim>\<open>::onnx::Value\<close> and \<^verbatim>\<open>::onnx::Node\<close> belong to
  the interchange format's library and are not under src. A source node exposes a
  symbolic operator kind, an ordered list of input references and an ordered list of
  output references; a reference has a name that may or may not be unique. The record
  of a reference holds what its two observers \<^verbatim>\<open>has_unique_name()\<close> and
  \<^verbatim>\<open>uniqueName()\<close> return; a symbol is the string it was made from.
\<close>

record xValue =
  has_unique_name :: bool
  uniqueName :: string

record xNode =
  Node_kind :: string
  Node_inputs :: "xValue list"
  Node_outputs :: "xValue list"

section \<open>The Compute Graph\<close>

text \<open>
  Modelled from the spec: \<^verbatim>\<open>onnc::Tensor\<close> (onnc/IR/Compute/Tensor.h is not under src).
  A Value has a name, unique within its Compute Graph, an element type and a shape
  whose dimensions may be unknown.
\<close>

datatype ElemType = Float32 | Int32 | OtherElem string

record Tensor =
  t_name :: string
  t_elem :: ElemType
  t_dims :: "nat option list"

text \<open>
  Modelled from the spec: \<^verbatim>\<open>onnc::ComputeOperator\<close> (not under src). An IR node has a
  kind, an ordered list of input Values, an ordered list of output Values and zero or
  more named attributes. Nodes hold non-owning references to Values, resolved through
  the graph's name table: a reference is the Value's name.
\<close>

record ComputeOperator =
  op_kind :: string
  op_inputs :: "string list"
  op_outputs :: "string list"
  op_attrs :: "(string \<times> Attribute) list"

text \<open>
  Modelled from the spec: \<^verbatim>\<open>onnc::ComputeGraph\<close> (onnc/IR/ComputeGraph.h is not under
  src). The graph owns the node sequence, in insertion order, and the value table.
  A pointer to a node of the graph is the node's position in the sequence.
\<close>

record ComputeGraph =
  cg_nodes :: "ComputeOperator list"
  cg_values :: "Tensor list"

text \<open>
  Modelled from the spec: the constructor of \<^verbatim>\<open>onnc::Abs\<close> (onnc/IR/Compute/Abs.h is
  not under src): a node of kind Abs with no input, no output and no attribute.
\<close>

definition Abs_ctor :: ComputeOperator where
  "Abs_ctor = \<lparr>op_kind = ''Abs'', op_inputs = [], op_outputs = [], op_attrs = []\<rparr>"

text \<open>
  Modelled from the spec: \<^verbatim>\<open>ComputeGraph::addOperator<onnc::Abs>()\<close> allocates a new
  node of the requested kind, inserts it at the end of the node sequence and returns a
  handle to it.
\<close>

definition addOperator_Abs :: "ComputeGraph \<Rightarrow> nat \<times> ComputeGraph" where
  "addOperator_Abs g = (length (cg_nodes g), g\<lparr>cg_nodes := cg_nodes g @ [Abs_ctor]\<rparr>)"

text \<open>
  Modelled from the spec: \<^verbatim>\<open>ComputeGraph::getValue<onnc::Tensor>(name)\<close> resolves a
  Value by name. The source dereferences the result (AbsLower.cpp, lines 57 and 60),
  so the result is a pointer; it is null (\<open>None\<close>) when the name resolves to no Value.
\<close>

definition getValue :: "ComputeGraph \<Rightarrow> string \<Rightarrow> Tensor option" where
  "getValue g pName = find (\<lambda>t. t_name t = pName) (cg_values g)"

text \<open>
  Modelled from the spec: \<^verbatim>\<open>ComputeOperator::addInput\<close> and \<^verbatim>\<open>addOutput\<close> append a
  Value to the node's ordered input list and output list. A handle that is no position
  of the node sequence changes nothing.
\<close>

definition addInput :: "nat \<Rightarrow> Tensor \<Rightarrow> ComputeGraph \<Rightarrow> ComputeGraph" where
  "addInput op t g =
     (if op < length (cg_nodes g)
      then g\<lparr>cg_nodes := (cg_nodes g)[op := (cg_nodes g ! op)\<lparr>op_inputs := op_inputs (cg_nodes g ! op) @ [t_name t]\<rparr>]\<rparr>
      else g)"

definition addOutput :: "nat \<Rightarrow> Tensor \<Rightarrow> ComputeGraph \<Rightarrow> ComputeGraph" where
  "addOutput op t g =
     (if op < length (cg_nodes g)
      then g\<lparr>cg_nodes := (cg_nodes g)[op := (cg_nodes g ! op)\<lparr>op_outputs := op_outputs (cg_nodes g ! op) @ [t_name t]\<rparr>]\<rparr>
      else g)"

section \<open>AbsLower (lib/Transforms/TensorSel/AbsLower.cpp)\<close>

text \<open>
  Modelled from the spec: the match levels of \<^verbatim>\<open>Lower\<close> (onnc/Transforms/TensorSel/Lower.h
  is not under src), an ordered enumeration NotMe, StandardMatch, CustomMatch. The
  source names the first two \<^verbatim>\<open>kNotMe\<close> and \<^verbatim>\<open>kStdLower\<close>.
\<close>

datatype MatchLevel = kNotMe | kStdLower | kCustomMatch

definition isMe :: "xNode \<Rightarrow> MatchLevel" where
  "isMe pNode = (if Node_kind pNode = ''Abs'' then kStdLower else kNotMe)"

text \<open>
  The two validation loops return \<^verbatim>\<open>nullptr\<close> at the first reference without a unique
  name; \<open>all_unique_names\<close> is True when the loop runs to its end.
\<close>

fun all_unique_names :: "xValue list \<Rightarrow> bool" where
  "all_unique_names [] = True"
| "all_unique_names (xv # xvs) = (if \<not> has_unique_name xv then False else all_unique_names xvs)"

text \<open>Dereferencing a null pointer has no defined result: it is the fault of the model.\<close>

datatype fault = NullDereference

fun add_inputs :: "nat \<Rightarrow> xValue list \<Rightarrow> ComputeGraph \<Rightarrow> fault + ComputeGraph" where
  "add_inputs op [] g = Inr g"
| "add_inputs op (xv # xvs) g =
     (case getValue g (uniqueName xv) of
        None \<Rightarrow> Inl NullDereference
      | Some t \<Rightarrow> add_inputs op xvs (addInput op t g))"

fun add_outputs :: "nat \<Rightarrow> xValue list \<Rightarrow> ComputeGraph \<Rightarrow> fault + ComputeGraph" where
  "add_outputs op [] g = Inr g"
| "add_outputs op (xv # xvs) g =
     (case getValue g (uniqueName xv) of
        None \<Rightarrow> Inl NullDereference
      | Some t \<Rightarrow> add_outputs op xvs (addOutput op t g))"

text \<open>
  \<^verbatim>\<open>AbsLower::activate\<close>. The result is the returned pointer (\<open>None\<close> for \<^verbatim>\<open>nullptr\<close>)
  with the graph after the call.
\<close>

definition activate :: "ComputeGraph \<Rightarrow> xNode \<Rightarrow> fault + (nat option \<times> ComputeGraph)" where
  "activate pGraph pNode =
     (if 1 \<noteq> length (Node_inputs pNode) then Inr (None, pGraph)
      else if \<not> all_unique_names (Node_inputs pNode) then Inr (None, pGraph)
      else if 1 \<noteq> length (Node_outputs pNode) then Inr (None, pGraph)
      else if \<not> all_unique_names (Node_outputs pNode) then Inr (None, pGraph)
      else
        (case addOperator_Abs pGraph of
           (op, g1) \<Rightarrow>
             (case add_inputs op (Node_inputs pNode) g1 of
                Inl e \<Rightarrow> Inl e
              | Inr g2 \<Rightarrow>
                  (case add_outputs op (Node_outputs pNode) g2 of
                     Inl e \<Rightarrow> Inl e
                   | Inr g3 \<Rightarrow> Inr (Some op, g3)))))"

section \<open>UpdateCtablePass\<close>

text \<open>
  Modelled from the spec: \<^verbatim>\<open>Pass::ReturnType\<close> (onnc/Core/Pass.h is not under src), the
  tri-state result NoChange, GraphChanged, Error of a pass run. The source names the
  second \<^verbatim>\<open>kModuleChanged\<close>.
\<close>

datatype ReturnType = kModuleNoChanged | kModuleChanged | kPassFailure

text \<open>
  The loop of \<^verbatim>\<open>runOnGraphs\<close>: the iterator runs from \<^verbatim>\<open>pCG.begin()\<close> to the end taken
  before the loop; the third argument holds the nodes from the iterator to the end,
  the second the nodes already passed. The virtual \<^verbatim>\<open>accept\<close> and the visitor
  (UpdateVisitor.h is not under src) are parameters: \<open>accept node visitor\<close> gives the
  node and the visitor after the call. The loop is written for any node type.
\<close>

fun accept_loop :: "('n \<Rightarrow> 'vis \<Rightarrow> 'n \<times> 'vis) \<Rightarrow> 'n list \<Rightarrow> 'n list \<Rightarrow> 'vis \<Rightarrow> 'n list \<times> 'vis" where
  "accept_loop accept passed [] visitor = (passed, visitor)"
| "accept_loop accept passed (node # rest) visitor =
     (case accept node visitor of
        (node', visitor') \<Rightarrow> accept_loop accept (passed @ [node']) rest visitor')"

text \<open>
  \<^verbatim>\<open>UpdateCtablePass::runOnGraphs\<close>; \<open>visitor\<close> is the visitor constructed from
  \<^verbatim>\<open>m_pBackend\<close>. The source graph \<^verbatim>\<open>pTG\<close> is not used.
\<close>

definition runOnGraphs :: "(ComputeOperator \<Rightarrow> 'vis \<Rightarrow> ComputeOperator \<times> 'vis) \<Rightarrow> 'vis \<Rightarrow> 'tg \<Rightarrow> ComputeGraph \<Rightarrow> ReturnType \<times> ComputeGraph \<times> 'vis" where
  "runOnGraphs accept visitor pTG pCG =
     (case accept_loop accept [] (cg_nodes pCG) visitor of
        (nodes', visitor') \<Rightarrow> (kModuleChanged, pCG\<lparr>cg_nodes := nodes'\<rparr>, visitor'))"

text \<open>
  To observe the calls of \<^verbatim>\<open>accept\<close>, a visitor is paired with the list of the nodes it
  was called on, in call order.
\<close>

definition recording :: "('n \<Rightarrow> 'vis \<Rightarrow> 'n \<times> 'vis) \<Rightarrow> 'n \<Rightarrow> 'vis \<times> 'n list \<Rightarrow> 'n \<times> ('vis \<times> 'n list)" where
  "recording accept node s =
     (case accept node (fst s) of
        (node', visitor') \<Rightarrow> (node', (visitor', snd s @ [node])))"

text \<open>Renaming the kind of a node, and of every node of a graph.\<close>

definition rename_kind :: "(string \<Rightarrow> string) \<Rightarrow> ComputeOperator \<Rightarrow> ComputeOperator" where
  "rename_kind k node = node\<lparr>op_kind := k (op_kind node)\<rparr>"

definition rename_kinds :: "(string \<Rightarrow> string) \<Rightarrow> ComputeGraph \<Rightarrow> ComputeGraph" where
  "rename_kinds k g = g\<lparr>cg_nodes := map (rename_kind k) (cg_nodes g)\<rparr>"

section \<open>Statistics counters\<close>

text \<open>
  Modelled from the spec: the global statistics store behind \<^verbatim>\<open>global::stats()\<close> and
  the entry operations of \<^verbatim>\<open>StatisticsGroup\<close> (GlobalStatistics and StatisticsGroup are
  not under src): a hierarchical store read and written by name. The store holds the
  two groups the counter functions use: \<^verbatim>\<open>"Counter"\<close>, whose entries are the \<^verbatim>\<open>int\<close>
  values these functions write, and \<^verbatim>\<open>"Counter_Desc"\<close>, whose entries are strings. A
  group handle refers to the group inside the store, so a write through it is a write
  to the store. An \<^verbatim>\<open>int\<close> is a 32-bit word.
\<close>

record Statistics =
  Counter :: "string \<rightharpoonup> 32 word"
  Counter_Desc :: "string \<rightharpoonup> string"

definition hasEntry :: "(string \<rightharpoonup> 'a) \<Rightarrow> string \<Rightarrow> bool" where
  "hasEntry grp pName = (grp pName \<noteq> None)"

definition writeEntry :: "(string \<rightharpoonup> 'a) \<Rightarrow> string \<Rightarrow> 'a \<Rightarrow> (string \<rightharpoonup> 'a)" where
  "writeEntry grp pName pValue = grp(pName \<mapsto> pValue)"

definition readEntry :: "(string \<rightharpoonup> 'a) \<Rightarrow> string \<Rightarrow> 'a \<Rightarrow> 'a" where
  "readEntry grp pName pDefault = (case grp pName of None \<Rightarrow> pDefault | Some v \<Rightarrow> v)"

text \<open>\<^verbatim>\<open>Statistics::addCounter(StringRef pName, StringRef pDesc)\<close>.\<close>

definition addCounter_desc :: "Statistics \<Rightarrow> string \<Rightarrow> string \<Rightarrow> bool \<times> Statistics" where
  "addCounter_desc gStat pName pDesc =
     (if hasEntry (Counter gStat) pName then (False, gStat)
      else
        (let g1 = gStat\<lparr>Counter := writeEntry (Counter gStat) pName 0\<rparr>;
             g2 = g1\<lparr>Counter_Desc := writeEntry (Counter_Desc g1) pName pDesc\<rparr>
         in (True, g2)))"

text \<open>\<^verbatim>\<open>Statistics::addCounter(StringRef pName)\<close>.\<close>

definition addCounter :: "Statistics \<Rightarrow> string \<Rightarrow> bool \<times> Statistics" where
  "addCounter gStat pName = addCounter_desc gStat pName ''no description''"

text \<open>
  \<^verbatim>\<open>increaseCounter\<close> and \<^verbatim>\<open>decreaseCounter\<close>: the \<^verbatim>\<open>int\<close> read from the store and the
  \<^verbatim>\<open>unsigned int\<close> argument are added (subtracted) as \<^verbatim>\<open>unsigned int\<close>, modulo \<open>2 ^ 32\<close>,
  and the result is stored as \<^verbatim>\<open>int\<close> with the same 32 bits.
\<close>

definition increaseCounter :: "Statistics \<Rightarrow> string \<Rightarrow> 32 word \<Rightarrow> bool \<times> Statistics" where
  "increaseCounter gStat pName incNumber =
     (if \<not> hasEntry (Counter gStat) pName then (False, gStat)
      else
        (let entry_value = readEntry (Counter gStat) pName 0 + incNumber
         in (True, gStat\<lparr>Counter := writeEntry (Counter gStat) pName entry_value\<rparr>)))"

definition decreaseCounter :: "Statistics \<Rightarrow> string \<Rightarrow> 32 word \<Rightarrow> bool \<times> Statistics" where
  "decreaseCounter gStat pName decNumber =
     (if \<not> hasEntry (Counter gStat) pName then (False, gStat)
      else
        (let entry_value = readEntry (Counter gStat) pName 0 - decNumber
         in (True, gStat\<lparr>Counter := writeEntry (Counter gStat) pName entry_value\<rparr>)))"

section \<open>Example inputs\<close>

definition tensor_t0 :: Tensor where
  "tensor_t0 = \<lparr>t_name = ''t0'', t_elem = Float32, t_dims = []\<rparr>"

definition tensor_t1 :: Tensor where
  "tensor_t1 = \<lparr>t_name = ''t1'', t_elem = Float32, t_dims = []\<rparr>"

definition ref_t0 :: xValue where
  "ref_t0 = \<lparr>has_unique_name = True, uniqueName = ''t0''\<rparr>"

definition ref_t1 :: xValue where
  "ref_t1 = \<lparr>has_unique_name = True, uniqueName = ''t1''\<rparr>"

definition abs_node :: xNode where
  "abs_node = \<lparr>Node_kind = ''Abs'', Node_inputs = [ref_t0], Node_outputs = [ref_t1]\<rparr>"

definition relu_node :: xNode where
  "relu_node = \<lparr>Node_kind = ''Relu'', Node_inputs = [ref_t0], Node_outputs = [ref_t1]\<rparr>"

definition abs_node_two_inputs :: xNode where
  "abs_node_two_inputs = \<lparr>Node_kind = ''Abs'', Node_inputs = [ref_t0, ref_t1], Node_outputs = [ref_t1]\<rparr>"

definition graph_t0_t1 :: ComputeGraph where
  "graph_t0_t1 = \<lparr>cg_nodes = [], cg_values = [tensor_t0, tensor_t1]\<rparr>"

definition graph_t0 :: ComputeGraph where
  "graph_t0 = \<lparr>cg_nodes = [], cg_values = [tensor_t0]\<rparr>"

definition empty_graph :: ComputeGraph where
  "empty_graph = \<lparr>cg_nodes = [], cg_values = []\<rparr>"

definition scalar_store :: "addr \<rightharpoonup> int ScalarAttribute" where
  "scalar_store = [0 \<mapsto> ScalarAttribute_ctor kInteger 5, 1 \<mapsto> ScalarAttribute_ctor kInteger 7]"

definition vector_store :: "addr \<rightharpoonup> int VectorAttribute" where
  "vector_store = [0 \<mapsto> VectorAttribute_ctor kInteger [1, 2, 3], 1 \<mapsto> VectorAttribute_ctor kInteger []]"

definition graph_two_nodes :: ComputeGraph where
  "graph_two_nodes =
     \<lparr>cg_nodes =
        [\<lparr>op_kind = ''Abs'', op_inputs = [''t0''], op_outputs = [''t1''], op_attrs = []\<rparr>,
         \<lparr>op_kind = ''Relu'', op_inputs = [''t1''], op_outputs = [''t0''], op_attrs = []\<rparr>],
      cg_values = [tensor_t0, tensor_t1]\<rparr>"

text \<open>A visitor whose visit methods do nothing.\<close>

definition accept_nothing :: "ComputeOperator \<Rightarrow> unit \<Rightarrow> ComputeOperator \<times> unit" where
  "accept_nothing node visitor = (node, visitor)"

text \<open>A visitor that attaches an attribute to every node and counts its calls.\<close>

definition accept_tag :: "ComputeOperator \<Rightarrow> nat \<Rightarrow> ComputeOperator \<times> nat" where
  "accept_tag node visitor =
     (node\<lparr>op_attrs := (''ctable'', Attribute_ctor kInteger) # op_attrs node\<rparr>, Suc visitor)"

definition bm_kind :: "string \<Rightarrow> string" where
  "bm_kind k = ''BM'' @ k"

definition stats_empty :: Statistics where
  "stats_empty = \<lparr>Counter = Map.empty, Counter_Desc = Map.empty\<rparr>"

definition stats_hits :: Statistics where
  "stats_hits = \<lparr>Counter = [''hits'' \<mapsto> 2147483647], Counter_Desc = [''hits'' \<mapsto> ''cache hits'']\<rparr>"

section \<open>AbsLower: properties\<close>

lemma all_unique_names_iff: "all_unique_names xvs \<longleftrightarrow> (\<forall>xv \<in> set xvs. has_unique_name xv)"
  by (induction xvs) auto

lemma getValue_name: "getValue g pName = Some t \<Longrightarrow> t_name t = pName"
  by (auto simp: getValue_def find_Some_iff)

lemma activate_null_unchanged: "activate pGraph pNode = Inr (None, g') \<Longrightarrow> g' = pGraph"
  by (auto simp: activate_def split: if_splits prod.splits sum.splits)

lemma getValue_cg_nodes_update: "getValue (g\<lparr>cg_nodes := ns\<rparr>) pName = getValue g pName"
  by (simp add: getValue_def)

lemma activate_one_one:
  assumes i: "Node_inputs pNode = [xi]" and o: "Node_outputs pNode = [xo]"
    and ui: "has_unique_name xi" and uo: "has_unique_name xo"
    and vi: "getValue pGraph (uniqueName xi) = Some ti"
    and vo: "getValue pGraph (uniqueName xo) = Some to"
  shows "activate pGraph pNode =
           Inr (Some (length (cg_nodes pGraph)),
                pGraph\<lparr>cg_nodes := cg_nodes pGraph @
                  [\<lparr>op_kind = ''Abs'', op_inputs = [uniqueName xi],
                    op_outputs = [uniqueName xo], op_attrs = []\<rparr>]\<rparr>)"
proof -
  have ni: "t_name ti = uniqueName xi"
    using vi by (rule getValue_name)
  have no: "t_name to = uniqueName xo"
    using vo by (rule getValue_name)
  show ?thesis
    using vi vo
    by (simp add: activate_def i o ui uo addOperator_Abs_def getValue_cg_nodes_update
        addInput_def addOutput_def Abs_ctor_def ni no)
qed

lemma activate_null_iff:
  "(\<exists>g'. activate pGraph pNode = Inr (None, g')) \<longleftrightarrow>
     (length (Node_inputs pNode) \<noteq> 1 \<or> length (Node_outputs pNode) \<noteq> 1 \<or>
      (\<exists>xv \<in> set (Node_inputs pNode) \<union> set (Node_outputs pNode). \<not> has_unique_name xv))"
  by (auto simp: activate_def all_unique_names_iff split: prod.splits sum.splits)

text \<open>
  C4. \<^verbatim>\<open>AbsLower::isMe\<close> answers \<^verbatim>\<open>kStdLower\<close> for a node whose operator symbol is
  \<^verbatim>\<open>Abs\<close> and \<^verbatim>\<open>kNotMe\<close> for every other symbol; the two answers differ, and the answer
  depends on nothing but the symbol. The function is a const member taking the node
  by const reference and writes nothing: its embedding takes the node and returns the
  match level only, with no rule or node state coming out of the call.
\<close>

theorem isMe_Abs_only:
  "(Node_kind pNode = ''Abs'' \<longrightarrow> isMe pNode = kStdLower) \<and>
   (Node_kind pNode \<noteq> ''Abs'' \<longrightarrow> isMe pNode = kNotMe) \<and>
   kStdLower \<noteq> kNotMe \<and>
   (Node_kind pNode = Node_kind pNode' \<longrightarrow> isMe pNode = isMe pNode')"
  by (simp add: isMe_def)

theorem isMe_Abs_only_witness:
  "Node_kind abs_node = ''Abs'' \<and> isMe abs_node = kStdLower \<and>
   Node_kind relu_node \<noteq> ''Abs'' \<and> isMe relu_node = kNotMe \<and>
   Node_kind abs_node = Node_kind abs_node_two_inputs \<and> isMe abs_node = isMe abs_node_two_inputs"
proof -
  have a: "Node_kind abs_node = ''Abs''"
    by (simp add: abs_node_def)
  have r: "Node_kind relu_node \<noteq> ''Abs''"
    by (simp add: relu_node_def)
  have k: "Node_kind abs_node = Node_kind abs_node_two_inputs"
    by (simp add: abs_node_def abs_node_two_inputs_def)
  from a r k isMe_Abs_only [of abs_node abs_node_two_inputs] isMe_Abs_only [of relu_node relu_node]
  show ?thesis by auto
qed

text \<open>
  C3. When \<^verbatim>\<open>AbsLower::activate\<close> returns null, the Compute Graph after the call is the
  graph before the call; in particular its node count and its value count are the
  same, and no node or value was inserted.
\<close>

theorem activate_null_atomic:
  "activate pGraph pNode = Inr (None, g') \<Longrightarrow>
     g' = pGraph \<and>
     length (cg_nodes g') = length (cg_nodes pGraph) \<and>
     length (cg_values g') = length (cg_values pGraph)"
  using activate_null_unchanged by blast

theorem activate_null_atomic_witness:
  "activate graph_t0_t1 abs_node_two_inputs = Inr (None, graph_t0_t1) \<and>
   length (cg_nodes graph_t0_t1) = length (cg_nodes graph_t0_t1) \<and>
   length (cg_values graph_t0_t1) = length (cg_values graph_t0_t1)"
proof -
  have h: "activate graph_t0_t1 abs_node_two_inputs = Inr (None, graph_t0_t1)"
    by (simp add: activate_def abs_node_two_inputs_def)
  from h activate_null_atomic [OF h] show ?thesis by simp
qed

text \<open>
  C1. Take a source node of kind \<^verbatim>\<open>Abs\<close> with exactly one input, uniquely named
  \<^verbatim>\<open>t0\<close>, and exactly one output, uniquely named \<^verbatim>\<open>t1\<close>, and a Compute Graph that holds
  float32 tensors \<^verbatim>\<open>t0\<close> and \<^verbatim>\<open>t1\<close>. Then \<^verbatim>\<open>AbsLower\<close> claims the node, and
  \<^verbatim>\<open>activate\<close> returns the node it appended to the graph's node sequence: a node of kind
  Abs with the input list \<^verbatim>\<open>["t0"]\<close>, the output list \<^verbatim>\<open>["t1"]\<close> and no attribute; the
  value table is as before. Lowering a single-node source graph starts from a Compute
  Graph without nodes, and then this node is the only node of the result.
\<close>

theorem activate_Abs_t0_t1:
  assumes "Node_kind pNode = ''Abs''"
    and "Node_inputs pNode = [xi]" and "has_unique_name xi" and "uniqueName xi = ''t0''"
    and "Node_outputs pNode = [xo]" and "has_unique_name xo" and "uniqueName xo = ''t1''"
    and "getValue pGraph ''t0'' = Some v0" and "t_elem v0 = Float32"
    and "getValue pGraph ''t1'' = Some v1" and "t_elem v1 = Float32"
  shows "isMe pNode = kStdLower \<and>
         activate pGraph pNode =
           Inr (Some (length (cg_nodes pGraph)),
                pGraph\<lparr>cg_nodes := cg_nodes pGraph @
                  [\<lparr>op_kind = ''Abs'', op_inputs = [''t0''], op_outputs = [''t1''], op_attrs = []\<rparr>]\<rparr>) \<and>
         (cg_nodes pGraph = [] \<longrightarrow>
            activate pGraph pNode =
              Inr (Some 0,
                   pGraph\<lparr>cg_nodes :=
                     [\<lparr>op_kind = ''Abs'', op_inputs = [''t0''], op_outputs = [''t1''], op_attrs = []\<rparr>]\<rparr>))"
proof -
  have m: "isMe pNode = kStdLower"
    using assms(1) by (simp add: isMe_def)
  have a: "activate pGraph pNode =
           Inr (Some (length (cg_nodes pGraph)),
                pGraph\<lparr>cg_nodes := cg_nodes pGraph @
                  [\<lparr>op_kind = ''Abs'', op_inputs = [uniqueName xi],
                    op_outputs = [uniqueName xo], op_attrs = []\<rparr>]\<rparr>)"
    using assms by (intro activate_one_one [where ti = v0 and to = v1]) simp_all
  from m a show ?thesis
    by (simp add: assms(4) assms(7))
qed

theorem activate_Abs_t0_t1_witness:
  "isMe abs_node = kStdLower \<and>
   activate graph_t0_t1 abs_node =
     Inr (Some 0,
          \<lparr>cg_nodes = [\<lparr>op_kind = ''Abs'', op_inputs = [''t0''], op_outputs = [''t1''], op_attrs = []\<rparr>],
           cg_values = [tensor_t0, tensor_t1]\<rparr>)"
proof -
  have h: "Node_kind abs_node = ''Abs''"
    "Node_inputs abs_node = [ref_t0]" "has_unique_name ref_t0" "uniqueName ref_t0 = ''t0''"
    "Node_outputs abs_node = [ref_t1]" "has_unique_name ref_t1" "uniqueName ref_t1 = ''t1''"
    "getValue graph_t0_t1 ''t0'' = Some tensor_t0" "t_elem tensor_t0 = Float32"
    "getValue graph_t0_t1 ''t1'' = Some tensor_t1" "t_elem tensor_t1 = Float32"
    by (simp_all add: abs_node_def ref_t0_def ref_t1_def graph_t0_t1_def getValue_def
        tensor_t0_def tensor_t1_def)
  have e: "cg_nodes graph_t0_t1 = []"
    by (simp add: graph_t0_t1_def)
  from activate_Abs_t0_t1 [OF h] e show ?thesis
    by (simp add: graph_t0_t1_def)
qed

text \<open>
  C2, as stated, fails: the graph below holds a Value for the node's only input
  \<^verbatim>\<open>t0\<close>, the node has one input and one output, both uniquely named, and yet
  \<^verbatim>\<open>activate\<close> returns no node: the lookup of the output \<^verbatim>\<open>t1\<close> gives a null pointer,
  which line 60 dereferences.
\<close>

theorem activate_output_not_held_counterexample:
  "isMe abs_node \<noteq> kNotMe \<and>
   Node_inputs abs_node = [ref_t0] \<and> Node_outputs abs_node = [ref_t1] \<and>
   has_unique_name ref_t0 \<and> has_unique_name ref_t1 \<and>
   getValue graph_t0 (uniqueName ref_t0) = Some tensor_t0 \<and>
   getValue graph_t0 (uniqueName ref_t1) = None \<and>
   activate graph_t0 abs_node = Inl NullDereference"
  by (simp add: isMe_def abs_node_def ref_t0_def ref_t1_def graph_t0_def getValue_def
      tensor_t0_def activate_def addOperator_Abs_def addInput_def Abs_ctor_def)

text \<open>
  C2, amended. For every source node on which \<^verbatim>\<open>isMe\<close> did not return \<^verbatim>\<open>kNotMe\<close>,
  \<^verbatim>\<open>AbsLower::activate\<close> returns null if and only if the node's input count differs
  from 1, its output count differs from 1, or some input or output of the node lacks a
  unique name. Otherwise, when the Compute Graph holds Values for each of the node's
  declared inputs and outputs, it returns the Abs node it has appended to the node
  sequence, whose input and output lists are the names of the node's input and output,
  each resolving to a Value of the graph.
\<close>

theorem activate_null_iff_invalid:
  assumes "isMe pNode \<noteq> kNotMe"
  shows "((\<exists>g'. activate pGraph pNode = Inr (None, g')) \<longleftrightarrow>
            (length (Node_inputs pNode) \<noteq> 1 \<or> length (Node_outputs pNode) \<noteq> 1 \<or>
             (\<exists>xv \<in> set (Node_inputs pNode) \<union> set (Node_outputs pNode). \<not> has_unique_name xv))) \<and>
         ((\<forall>xv \<in> set (Node_inputs pNode) \<union> set (Node_outputs pNode).
              getValue pGraph (uniqueName xv) \<noteq> None) \<and>
          \<not> (length (Node_inputs pNode) \<noteq> 1 \<or> length (Node_outputs pNode) \<noteq> 1 \<or>
             (\<exists>xv \<in> set (Node_inputs pNode) \<union> set (Node_outputs pNode). \<not> has_unique_name xv)) \<longrightarrow>
          (\<exists>xi xo ti to.
             Node_inputs pNode = [xi] \<and> Node_outputs pNode = [xo] \<and>
             getValue pGraph (uniqueName xi) = Some ti \<and> t_name ti = uniqueName xi \<and>
             getValue pGraph (uniqueName xo) = Some to \<and> t_name to = uniqueName xo \<and>
             activate pGraph pNode =
               Inr (Some (length (cg_nodes pGraph)),
                    pGraph\<lparr>cg_nodes := cg_nodes pGraph @
                      [\<lparr>op_kind = ''Abs'', op_inputs = [uniqueName xi],
                        op_outputs = [uniqueName xo], op_attrs = []\<rparr>]\<rparr>)))"
proof (intro conjI impI)
  show "(\<exists>g'. activate pGraph pNode = Inr (None, g')) \<longleftrightarrow>
            (length (Node_inputs pNode) \<noteq> 1 \<or> length (Node_outputs pNode) \<noteq> 1 \<or>
             (\<exists>xv \<in> set (Node_inputs pNode) \<union> set (Node_outputs pNode). \<not> has_unique_name xv))"
    by (rule activate_null_iff)
next
  assume h: "(\<forall>xv \<in> set (Node_inputs pNode) \<union> set (Node_outputs pNode).
              getValue pGraph (uniqueName xv) \<noteq> None) \<and>
          \<not> (length (Node_inputs pNode) \<noteq> 1 \<or> length (Node_outputs pNode) \<noteq> 1 \<or>
             (\<exists>xv \<in> set (Node_inputs pNode) \<union> set (Node_outputs pNode). \<not> has_unique_name xv))"
  from h obtain xi where i: "Node_inputs pNode = [xi]"
    by (cases "Node_inputs pNode") auto
  from h obtain xo where o: "Node_outputs pNode = [xo]"
    by (cases "Node_outputs pNode") auto
  from h i o have u: "has_unique_name xi" "has_unique_name xo"
    by auto
  from h i o obtain ti to where
    v: "getValue pGraph (uniqueName xi) = Some ti" "getValue pGraph (uniqueName xo) = Some to"
    by auto
  have n: "t_name ti = uniqueName xi" "t_name to = uniqueName xo"
    using v by (auto dest: getValue_name)
  from activate_one_one [OF i o u v] i o v n
  show "\<exists>xi xo ti to.
             Node_inputs pNode = [xi] \<and> Node_outputs pNode = [xo] \<and>
             getValue pGraph (uniqueName xi) = Some ti \<and> t_name ti = uniqueName xi \<and>
             getValue pGraph (uniqueName xo) = Some to \<and> t_name to = uniqueName xo \<and>
             activate pGraph pNode =
               Inr (Some (length (cg_nodes pGraph)),
                    pGraph\<lparr>cg_nodes := cg_nodes pGraph @
                      [\<lparr>op_kind = ''Abs'', op_inputs = [uniqueName xi],
                        op_outputs = [uniqueName xo], op_attrs = []\<rparr>]\<rparr>)"
    by blast
qed

theorem activate_null_iff_invalid_witness:
  "isMe abs_node \<noteq> kNotMe \<and>
   Node_inputs abs_node = [ref_t0] \<and> Node_outputs abs_node = [ref_t1] \<and>
   has_unique_name ref_t0 \<and> has_unique_name ref_t1 \<and>
   getValue graph_t0_t1 (uniqueName ref_t0) = Some tensor_t0 \<and>
   getValue graph_t0_t1 (uniqueName ref_t1) = Some tensor_t1 \<and>
   activate graph_t0_t1 abs_node =
     Inr (Some (length (cg_nodes graph_t0_t1)),
          graph_t0_t1\<lparr>cg_nodes := cg_nodes graph_t0_t1 @
            [\<lparr>op_kind = ''Abs'', op_inputs = [uniqueName ref_t0],
              op_outputs = [uniqueName ref_t1], op_attrs = []\<rparr>]\<rparr>) \<and>
   isMe abs_node_two_inputs \<noteq> kNotMe \<and> length (Node_inputs abs_node_two_inputs) \<noteq> 1 \<and>
   (\<exists>g'. activate graph_t0_t1 abs_node_two_inputs = Inr (None, g'))"
proof -
  have m: "isMe abs_node \<noteq> kNotMe" "isMe abs_node_two_inputs \<noteq> kNotMe"
    by (simp_all add: isMe_def abs_node_def abs_node_two_inputs_def)
  have i: "Node_inputs abs_node = [ref_t0]" "Node_outputs abs_node = [ref_t1]"
    by (simp_all add: abs_node_def)
  have u: "has_unique_name ref_t0" "has_unique_name ref_t1"
    by (simp_all add: ref_t0_def ref_t1_def)
  have v: "getValue graph_t0_t1 (uniqueName ref_t0) = Some tensor_t0"
    "getValue graph_t0_t1 (uniqueName ref_t1) = Some tensor_t1"
    by (simp_all add: ref_t0_def ref_t1_def graph_t0_t1_def getValue_def tensor_t0_def tensor_t1_def)
  have t: "length (Node_inputs abs_node_two_inputs) \<noteq> 1"
    by (simp add: abs_node_two_inputs_def)
  from activate_null_iff_invalid [OF m(1), of graph_t0_t1] i u v
  have s: "activate graph_t0_t1 abs_node =
     Inr (Some (length (cg_nodes graph_t0_t1)),
          graph_t0_t1\<lparr>cg_nodes := cg_nodes graph_t0_t1 @
            [\<lparr>op_kind = ''Abs'', op_inputs = [uniqueName ref_t0],
              op_outputs = [uniqueName ref_t1], op_attrs = []\<rparr>]\<rparr>)"
    by simp
  from activate_null_iff_invalid [OF m(2), of graph_t0_t1] t
  have n: "\<exists>g'. activate graph_t0_t1 abs_node_two_inputs = Inr (None, g')"
    by blast
  from m i u v s t n show ?thesis
    by blast
qed

section \<open>Attributes: properties\<close>

lemmas attr_defs = kind_def Attribute_ctor_def Attribute_copy_def Attribute_assign_def
  value_of_def ScalarAttribute_ctor_def ScalarAttribute_copy_def ScalarAttribute_assign_def
  setValue_def vector_def VectorAttribute_ctor_def VectorAttribute_copy_def
  VectorAttribute_assign_def vector_update_def
  Attribute.extend_def ScalarAttribute.fields_def VectorAttribute.fields_def

lemma ScalarAttribute_copy_eq: "ScalarAttribute_copy a = a"
  by (simp add: attr_defs)

lemma ScalarAttribute_assign_eq: "ScalarAttribute_assign t a = a"
  by (simp add: attr_defs)

lemma VectorAttribute_copy_eq: "VectorAttribute_copy a = a"
  by (simp add: attr_defs)

lemma VectorAttribute_assign_eq: "VectorAttribute_assign t a = a"
  by (simp add: attr_defs)

lemma ScalarAttribute_objs_kind: "a \<in> ScalarAttribute_objs K \<Longrightarrow> kind a = K"
  by (induction rule: ScalarAttribute_objs.induct) (simp_all add: attr_defs)

lemma VectorAttribute_objs_kind: "a \<in> VectorAttribute_objs K \<Longrightarrow> kind a = K"
  by (induction rule: VectorAttribute_objs.induct) (simp_all add: attr_defs)

text \<open>
  C5, as stated, fails: \<^verbatim>\<open>Attribute::operator=\<close> writes \<^verbatim>\<open>m_Kind\<close>. An attribute
  constructed with kind \<^verbatim>\<open>kFloat\<close> has kind \<^verbatim>\<open>kInteger\<close> after the assignment of an
  attribute of kind \<^verbatim>\<open>kInteger\<close>; applied to a scalar attribute through its base class,
  the assignment replaces the kind and keeps the payload.
\<close>

theorem Attribute_assign_kind_counterexample:
  "kind (Attribute_ctor kFloat) = kFloat \<and>
   kind (Attribute_assign (Attribute_ctor kFloat) (Attribute_ctor kInteger)) = kInteger \<and>
   kind (Attribute_assign (Attribute_ctor kFloat) (Attribute_ctor kInteger)) \<noteq> kFloat \<and>
   kind (ScalarAttribute_ctor kString ''relu'') = kString \<and>
   kind (Attribute_assign (ScalarAttribute_ctor kString ''relu'') (Attribute_ctor kInteger)) = kInteger \<and>
   value_of (Attribute_assign (ScalarAttribute_ctor kString ''relu'') (Attribute_ctor kInteger)) = ''relu''"
  by (simp add: attr_defs)

text \<open>
  C5, amended. The kind of an attribute is the kind given at construction until a copy
  assignment, and a copy assignment sets it to the kind of the assigned attribute: it
  leaves the kind as it was exactly when the two kinds are equal. \<^verbatim>\<open>setValue\<close> and a
  write through \<^verbatim>\<open>vector()\<close> replace the payload only. Every object of an instantiation
  \<^verbatim>\<open>ScalarAttribute<ValueType, Kind>\<close> or \<^verbatim>\<open>VectorAttribute<ValueType, Kind>\<close> that the
  members of its own class produce (constructors, copy construction, copy assignment
  within the class, payload writes) has kind \<^verbatim>\<open>Kind\<close>.
\<close>

theorem kind_after_operations:
  "kind (Attribute_ctor K) = K \<and>
   kind (ScalarAttribute_ctor K v) = K \<and>
   kind (VectorAttribute_ctor K vs) = K \<and>
   kind (Attribute_assign t a) = kind a \<and>
   (kind (Attribute_assign t a) = kind t \<longleftrightarrow> kind a = kind t) \<and>
   kind (setValue s v') = kind s \<and>
   kind (vector_update f w) = kind w \<and>
   (s \<in> ScalarAttribute_objs K \<longrightarrow> kind s = K) \<and>
   (w \<in> VectorAttribute_objs K \<longrightarrow> kind w = K)"
proof -
  have "kind (Attribute_ctor K) = K" "kind (ScalarAttribute_ctor K v) = K"
    "kind (VectorAttribute_ctor K vs) = K"
    by (simp_all add: attr_defs)
  moreover have "kind (Attribute_assign t a) = kind a"
    by (simp add: attr_defs)
  moreover have "kind (setValue s v') = kind s" "kind (vector_update f w) = kind w"
    by (simp_all add: attr_defs)
  ultimately show ?thesis
    using ScalarAttribute_objs_kind [of s K] VectorAttribute_objs_kind [of w K]
    by (simp add: eq_commute)
qed

theorem kind_after_operations_witness:
  "kind (Attribute_assign (Attribute_ctor kFloat) (Attribute_ctor kFloat)) = kind (Attribute_ctor kFloat) \<and>
   setValue (ScalarAttribute_assign (ScalarAttribute_ctor kInteger (1::int)) (ScalarAttribute_ctor kInteger 2)) 3
     \<in> ScalarAttribute_objs kInteger \<and>
   kind (setValue (ScalarAttribute_assign (ScalarAttribute_ctor kInteger (1::int)) (ScalarAttribute_ctor kInteger 2)) 3)
     = kInteger \<and>
   vector_update rev (VectorAttribute_copy (VectorAttribute_ctor kFloat [1::int, 2]))
     \<in> VectorAttribute_objs kFloat \<and>
   kind (vector_update rev (VectorAttribute_copy (VectorAttribute_ctor kFloat [1::int, 2]))) = kFloat"
proof -
  let ?s = "setValue (ScalarAttribute_assign (ScalarAttribute_ctor kInteger (1::int)) (ScalarAttribute_ctor kInteger 2)) 3"
  let ?w = "vector_update rev (VectorAttribute_copy (VectorAttribute_ctor kFloat [1::int, 2]))"
  have s: "?s \<in> ScalarAttribute_objs kInteger"
    by (intro ScalarAttribute_objs.intros)
  have w: "?w \<in> VectorAttribute_objs kFloat"
    by (intro VectorAttribute_objs.intros)
  have e: "kind (Attribute_ctor kFloat) = kind (Attribute_ctor kFloat)"
    by simp
  from s w e
    kind_after_operations [of kInteger "1::int" "[]::int list" "Attribute_ctor kFloat" "Attribute_ctor kFloat" ?s 0 id
      "VectorAttribute_ctor kInteger ([]::int list)"]
    kind_after_operations [of kFloat "1::int" "[]::int list" "Attribute_ctor kFloat" "Attribute_ctor kFloat"
      "ScalarAttribute_ctor kFloat (0::int)" 0 id ?w]
  show ?thesis
    by simp
qed

text \<open>
  C6. Copy construction from a scalar or vector attribute \<open>a\<close>, and copy assignment
  from \<open>a\<close> to any attribute of the same class, give an attribute with the kind of \<open>a\<close>
  and a payload equal to the payload of \<open>a\<close> (the scalar, or the vector with the same
  elements in the same order); the result is equal to \<open>a\<close>. The payload is held in the
  object by value, so the copy shares nothing with \<open>a\<close>. In memory, both operations
  return, write the object at \<^verbatim>\<open>this\<close> only, and leave the object \<open>a\<close> at the source
  address as it was (also in a self-assignment).
\<close>

theorem copy_keeps_kind_and_payload:
  "kind (ScalarAttribute_copy a) = kind a \<and> value_of (ScalarAttribute_copy a) = value_of a \<and>
   kind (ScalarAttribute_assign t a) = kind a \<and> value_of (ScalarAttribute_assign t a) = value_of a \<and>
   kind (VectorAttribute_copy b) = kind b \<and> vector (VectorAttribute_copy b) = vector b \<and>
   kind (VectorAttribute_assign u b) = kind b \<and> vector (VectorAttribute_assign u b) = vector b \<and>
   (hs src = Some a \<longrightarrow>
      Scalar_copy_at hs dst src = Some (hs(dst \<mapsto> a)) \<and> (hs(dst \<mapsto> a)) src = Some a) \<and>
   (hs src = Some a \<and> hs dst = Some t \<longrightarrow>
      Scalar_assign_at hs dst src = Some (hs(dst \<mapsto> a)) \<and> (hs(dst \<mapsto> a)) src = Some a) \<and>
   (hv src = Some b \<longrightarrow>
      Vector_copy_at hv dst src = Some (hv(dst \<mapsto> b)) \<and> (hv(dst \<mapsto> b)) src = Some b) \<and>
   (hv src = Some b \<and> hv dst = Some u \<longrightarrow>
      Vector_assign_at hv dst src = Some (hv(dst \<mapsto> b)) \<and> (hv(dst \<mapsto> b)) src = Some b)"
  by (simp add: ScalarAttribute_copy_eq ScalarAttribute_assign_eq VectorAttribute_copy_eq
      VectorAttribute_assign_eq Scalar_copy_at_def Scalar_assign_at_def Vector_copy_at_def
      Vector_assign_at_def)

theorem copy_keeps_kind_and_payload_witness:
  "scalar_store 0 = Some (ScalarAttribute_ctor kInteger 5) \<and>
   scalar_store 1 = Some (ScalarAttribute_ctor kInteger 7) \<and>
   Scalar_copy_at scalar_store 2 0 = Some (scalar_store(2 \<mapsto> ScalarAttribute_ctor kInteger 5)) \<and>
   Scalar_assign_at scalar_store 1 0 = Some (scalar_store(1 \<mapsto> ScalarAttribute_ctor kInteger 5)) \<and>
   (scalar_store(1 \<mapsto> ScalarAttribute_ctor kInteger 5)) 0 = Some (ScalarAttribute_ctor kInteger 5) \<and>
   vector_store 0 = Some (VectorAttribute_ctor kInteger [1, 2, 3]) \<and>
   vector_store 1 = Some (VectorAttribute_ctor kInteger []) \<and>
   Vector_copy_at vector_store 2 0 = Some (vector_store(2 \<mapsto> VectorAttribute_ctor kInteger [1, 2, 3])) \<and>
   Vector_assign_at vector_store 1 0 = Some (vector_store(1 \<mapsto> VectorAttribute_ctor kInteger [1, 2, 3])) \<and>
   (vector_store(1 \<mapsto> VectorAttribute_ctor kInteger [1, 2, 3])) 0 = Some (VectorAttribute_ctor kInteger [1, 2, 3])"
proof -
  have s: "scalar_store 0 = Some (ScalarAttribute_ctor kInteger 5)"
    "scalar_store 1 = Some (ScalarAttribute_ctor kInteger 7)"
    by (simp_all add: scalar_store_def)
  have v: "vector_store 0 = Some (VectorAttribute_ctor kInteger [1, 2, 3])"
    "vector_store 1 = Some (VectorAttribute_ctor kInteger [])"
    by (simp_all add: vector_store_def)
  from s v
    copy_keeps_kind_and_payload [of "ScalarAttribute_ctor kInteger 5" "ScalarAttribute_ctor kInteger 7"
      "VectorAttribute_ctor kInteger [1, 2, 3]" "VectorAttribute_ctor kInteger []"
      scalar_store 0 2 vector_store]
    copy_keeps_kind_and_payload [of "ScalarAttribute_ctor kInteger 5" "ScalarAttribute_ctor kInteger 7"
      "VectorAttribute_ctor kInteger [1, 2, 3]" "VectorAttribute_ctor kInteger []"
      scalar_store 0 1 vector_store]
  show ?thesis
    by simp
qed

section \<open>UpdateCtablePass: properties\<close>

lemma accept_loop_recording:
  "accept_loop (recording accept) passed ns (visitor, calls) =
     (case accept_loop accept passed ns visitor of (ns', v') \<Rightarrow> (ns', (v', calls @ ns)))"
proof (induction ns arbitrary: passed visitor calls)
  case Nil
  show ?case by simp
next
  case (Cons n ns)
  obtain n' v' where a: "accept n visitor = (n', v')"
    by (cases "accept n visitor")
  have "accept_loop (recording accept) passed (n # ns) (visitor, calls) =
        accept_loop (recording accept) (passed @ [n']) ns (v', calls @ [n])"
    by (simp add: recording_def a)
  also have "\<dots> = (case accept_loop accept (passed @ [n']) ns v' of
                      (ns', v'') \<Rightarrow> (ns', (v'', (calls @ [n]) @ ns)))"
    by (rule Cons.IH)
  finally show ?case
    by (simp add: a)
qed

lemma accept_loop_length:
  "length (fst (accept_loop accept passed ns visitor)) = length passed + length ns"
proof (induction ns arbitrary: passed visitor)
  case Nil
  show ?case by simp
next
  case (Cons n ns)
  obtain n' v' where a: "accept n visitor = (n', v')"
    by (cases "accept n visitor")
  show ?case
    by (simp add: a Cons.IH)
qed

lemma accept_loop_map:
  assumes c: "\<And>n v. accept' (f n) v = (case accept n v of (n', v') \<Rightarrow> (f n', v'))"
  shows "accept_loop accept' (map f passed) (map f ns) visitor =
     (case accept_loop accept passed ns visitor of (ns', v') \<Rightarrow> (map f ns', v'))"
proof (induction ns arbitrary: passed visitor)
  case Nil
  show ?case by simp
next
  case (Cons n ns)
  obtain n' v' where a: "accept n visitor = (n', v')"
    by (cases "accept n visitor")
  have "accept_loop accept' (map f passed) (map f (n # ns)) visitor =
        accept_loop accept' (map f (passed @ [n'])) (map f ns) v'"
    by (simp add: c a)
  also have "\<dots> = (case accept_loop accept (passed @ [n']) ns v' of (ns', v') \<Rightarrow> (map f ns', v'))"
    by (rule Cons.IH)
  finally show ?case
    by (simp add: a)
qed

lemma runOnGraphs_recording:
  "runOnGraphs (recording accept) (visitor, []) pTG pCG =
     (case runOnGraphs accept visitor pTG pCG of (r, g', v') \<Rightarrow> (r, g', (v', cg_nodes pCG)))"
  by (simp add: runOnGraphs_def accept_loop_recording split: prod.splits)

lemma runOnGraphs_length:
  "length (cg_nodes (fst (snd (runOnGraphs accept visitor pTG pCG)))) = length (cg_nodes pCG)"
proof -
  obtain ns' v' where l: "accept_loop accept [] (cg_nodes pCG) visitor = (ns', v')"
    by (cases "accept_loop accept [] (cg_nodes pCG) visitor")
  from accept_loop_length [of accept "[]" "cg_nodes pCG" visitor] l
  show ?thesis
    by (simp add: runOnGraphs_def)
qed

lemma runOnGraphs_rename:
  assumes "\<forall>node v. accept' (rename_kind k node) v =
             (case accept node v of (node', v') \<Rightarrow> (rename_kind k node', v'))"
  shows "runOnGraphs accept' visitor pTG (rename_kinds k pCG) =
     (case runOnGraphs accept visitor pTG pCG of (r, g', v') \<Rightarrow> (r, rename_kinds k g', v'))"
  using accept_loop_map [of accept' "rename_kind k" accept "[]" "cg_nodes pCG" visitor] assms
  by (simp add: runOnGraphs_def rename_kinds_def split: prod.splits)

text \<open>
  C7. One run of \<^verbatim>\<open>UpdateCtablePass::runOnGraphs\<close> calls \<^verbatim>\<open>accept(visitor)\<close> once on
  every node of the Compute Graph, in the order of the node sequence: run with any
  visitor that also records its calls, the pass does what it does without the record,
  and the record is the node sequence of the graph. The run keeps the number of nodes.
  The pass does not look at the kind of a node: when the visitor treats renamed nodes
  as it treats the nodes, so does the pass.
\<close>

theorem runOnGraphs_accepts_every_node_once:
  "runOnGraphs (recording accept) (visitor, []) pTG pCG =
     (case runOnGraphs accept visitor pTG pCG of (r, g', v') \<Rightarrow> (r, g', (v', cg_nodes pCG))) \<and>
   length (cg_nodes (fst (snd (runOnGraphs accept visitor pTG pCG)))) = length (cg_nodes pCG) \<and>
   ((\<forall>node v. accept' (rename_kind k node) v =
        (case accept node v of (node', v') \<Rightarrow> (rename_kind k node', v'))) \<longrightarrow>
    runOnGraphs accept' visitor pTG (rename_kinds k pCG) =
      (case runOnGraphs accept visitor pTG pCG of (r, g', v') \<Rightarrow> (r, rename_kinds k g', v')))"
  using runOnGraphs_recording [of accept visitor pTG pCG]
    runOnGraphs_length [of accept visitor pTG pCG]
    runOnGraphs_rename [of accept' k accept visitor pTG pCG]
  by blast

theorem runOnGraphs_accepts_every_node_once_witness:
  "(\<forall>node v. accept_tag (rename_kind bm_kind node) v =
        (case accept_tag node v of (node', v') \<Rightarrow> (rename_kind bm_kind node', v'))) \<and>
   snd (snd (snd (runOnGraphs (recording accept_tag) (0, []) () graph_two_nodes))) = cg_nodes graph_two_nodes \<and>
   snd (snd (runOnGraphs accept_tag 0 () graph_two_nodes)) = 2 \<and>
   runOnGraphs accept_tag 0 () (rename_kinds bm_kind graph_two_nodes) =
     (kModuleChanged, rename_kinds bm_kind (fst (snd (runOnGraphs accept_tag 0 () graph_two_nodes))), 2)"
proof -
  have c: "\<forall>node v. accept_tag (rename_kind bm_kind node) v =
        (case accept_tag node v of (node', v') \<Rightarrow> (rename_kind bm_kind node', v'))"
    by (simp add: accept_tag_def rename_kind_def)
  have r: "runOnGraphs accept_tag 0 () graph_two_nodes =
      (kModuleChanged,
       graph_two_nodes\<lparr>cg_nodes := fst (accept_loop accept_tag [] (cg_nodes graph_two_nodes) 0)\<rparr>,
       2)"
    by (simp add: runOnGraphs_def graph_two_nodes_def accept_tag_def)
  from c r runOnGraphs_accepts_every_node_once [of accept_tag 0 "()" graph_two_nodes accept_tag bm_kind]
  show ?thesis
    by simp
qed

text \<open>
  C8, as stated, fails: run with a visitor that does nothing, or on a graph without
  nodes, the pass leaves the Compute Graph as it was and returns \<^verbatim>\<open>kModuleChanged\<close>.
\<close>

theorem runOnGraphs_unchanged_counterexample:
  "runOnGraphs accept_nothing () () graph_two_nodes = (kModuleChanged, graph_two_nodes, ()) \<and>
   runOnGraphs accept_tag 0 () empty_graph = (kModuleChanged, empty_graph, 0) \<and>
   kModuleChanged \<noteq> kModuleNoChanged"
  by (simp add: runOnGraphs_def accept_nothing_def graph_two_nodes_def empty_graph_def)

text \<open>
  C8, amended. The result of a pass run is one of NoChange, GraphChanged and Error, and
  \<^verbatim>\<open>UpdateCtablePass::runOnGraphs\<close> returns GraphChanged (\<^verbatim>\<open>kModuleChanged\<close>) on every
  run, whether or not a node of the Compute Graph was modified; it returns neither
  NoChange nor Error.
\<close>

theorem runOnGraphs_returns_kModuleChanged:
  "fst (runOnGraphs accept visitor pTG pCG) = kModuleChanged \<and>
   fst (runOnGraphs accept visitor pTG pCG) \<noteq> kModuleNoChanged \<and>
   fst (runOnGraphs accept visitor pTG pCG) \<noteq> kPassFailure"
  by (simp add: runOnGraphs_def split: prod.splits)

section \<open>Statistics counters: properties\<close>

text \<open>
  C9. When the group \<^verbatim>\<open>"Counter"\<close> has an entry of the given name, \<^verbatim>\<open>addCounter\<close>
  (with or without a description) returns false and the store is as before. When it
  has none, \<^verbatim>\<open>addCounter\<close> returns true, and the store differs from the store before in
  the counter entry of that name, which is 0, and in the description entry of that
  name, which is the given description (\<^verbatim>\<open>"no description"\<close> when none is given).
\<close>

theorem addCounter_new_or_refused:
  "(Counter gStat pName \<noteq> None \<longrightarrow>
      addCounter_desc gStat pName pDesc = (False, gStat) \<and>
      addCounter gStat pName = (False, gStat)) \<and>
   (Counter gStat pName = None \<longrightarrow>
      addCounter_desc gStat pName pDesc =
        (True, gStat\<lparr>Counter := (Counter gStat)(pName \<mapsto> 0),
                     Counter_Desc := (Counter_Desc gStat)(pName \<mapsto> pDesc)\<rparr>) \<and>
      addCounter gStat pName =
        (True, gStat\<lparr>Counter := (Counter gStat)(pName \<mapsto> 0),
                     Counter_Desc := (Counter_Desc gStat)(pName \<mapsto> ''no description'')\<rparr>))"
  by (simp add: addCounter_def addCounter_desc_def hasEntry_def writeEntry_def)

theorem addCounter_new_or_refused_witness:
  "Counter stats_hits ''hits'' \<noteq> None \<and>
   addCounter_desc stats_hits ''hits'' ''again'' = (False, stats_hits) \<and>
   addCounter stats_hits ''hits'' = (False, stats_hits) \<and>
   Counter stats_empty ''hits'' = None \<and>
   addCounter_desc stats_empty ''hits'' ''cache hits'' =
     (True, \<lparr>Counter = [''hits'' \<mapsto> 0], Counter_Desc = [''hits'' \<mapsto> ''cache hits'']\<rparr>) \<and>
   addCounter stats_empty ''hits'' =
     (True, \<lparr>Counter = [''hits'' \<mapsto> 0], Counter_Desc = [''hits'' \<mapsto> ''no description'']\<rparr>)"
proof -
  have h: "Counter stats_hits ''hits'' \<noteq> None"
    by (simp add: stats_hits_def)
  have e: "Counter stats_empty ''hits'' = None"
    by (simp add: stats_empty_def)
  from h e addCounter_new_or_refused [of stats_hits "''hits''" "''again''"]
    addCounter_new_or_refused [of stats_empty "''hits''" "''cache hits''"]
  show ?thesis
    by (simp add: stats_empty_def)
qed

text \<open>
  C10. For a name with an entry in the group \<^verbatim>\<open>"Counter"\<close>, \<^verbatim>\<open>increaseCounter\<close> by \<open>n\<close>
  followed by \<^verbatim>\<open>decreaseCounter\<close> by \<open>n\<close> both return true and give back the store
  before the two calls, with the counter at the value it had; the arithmetic is modulo
  \<open>2 ^ 32\<close>, and the second call undoes the first also when the first wraps around.
  For a name without entry both return false and leave the store as it was.
\<close>

theorem increase_then_decrease_restores:
  "(Counter gStat pName = Some v \<longrightarrow>
      increaseCounter gStat pName n = (True, gStat\<lparr>Counter := (Counter gStat)(pName \<mapsto> v + n)\<rparr>) \<and>
      decreaseCounter (snd (increaseCounter gStat pName n)) pName n = (True, gStat) \<and>
      Counter (snd (decreaseCounter (snd (increaseCounter gStat pName n)) pName n)) pName = Some v) \<and>
   (Counter gStat pName = None \<longrightarrow>
      increaseCounter gStat pName n = (False, gStat) \<and>
      decreaseCounter gStat pName n = (False, gStat))"
proof (intro conjI impI)
  assume v: "Counter gStat pName = Some v"
  show i: "increaseCounter gStat pName n = (True, gStat\<lparr>Counter := (Counter gStat)(pName \<mapsto> v + n)\<rparr>)"
    by (simp add: increaseCounter_def hasEntry_def readEntry_def writeEntry_def v)
  have t: "(Counter gStat)(pName \<mapsto> v) = Counter gStat"
    using v by (rule map_upd_triv)
  show d: "decreaseCounter (snd (increaseCounter gStat pName n)) pName n = (True, gStat)"
    by (simp add: i decreaseCounter_def hasEntry_def readEntry_def writeEntry_def t)
  show "Counter (snd (decreaseCounter (snd (increaseCounter gStat pName n)) pName n)) pName = Some v"
    by (simp add: d v)
next
  assume "Counter gStat pName = None"
  then show "increaseCounter gStat pName n = (False, gStat)"
    by (simp add: increaseCounter_def hasEntry_def)
next
  assume "Counter gStat pName = None"
  then show "decreaseCounter gStat pName n = (False, gStat)"
    by (simp add: decreaseCounter_def hasEntry_def)
qed

theorem increase_then_decrease_restores_witness:
  "Counter stats_hits ''hits'' = Some 2147483647 \<and>
   increaseCounter stats_hits ''hits'' 1 = (True, stats_hits\<lparr>Counter := (Counter stats_hits)(''hits'' \<mapsto> 2147483648)\<rparr>) \<and>
   sint (2147483648 :: 32 word) = - 2147483648 \<and>
   decreaseCounter (snd (increaseCounter stats_hits ''hits'' 1)) ''hits'' 1 = (True, stats_hits) \<and>
   Counter stats_hits ''misses'' = None \<and>
   increaseCounter stats_hits ''misses'' 1 = (False, stats_hits) \<and>
   decreaseCounter stats_hits ''misses'' 1 = (False, stats_hits)"
proof -
  have h: "Counter stats_hits ''hits'' = Some 2147483647"
    by (simp add: stats_hits_def)
  have m: "Counter stats_hits ''misses'' = None"
    by (simp add: stats_hits_def)
  have s: "sint (2147483648 :: 32 word) = - 2147483648"
    by simp
  note r = increase_then_decrease_restores [of stats_hits "''hits''" 2147483647 1,
      THEN conjunct1, rule_format, OF h]
  have i: "increaseCounter stats_hits ''hits'' 1 =
      (True, stats_hits\<lparr>Counter := (Counter stats_hits)(''hits'' \<mapsto> 2147483648)\<rparr>)"
    using r [THEN conjunct1] by simp
  have d: "decreaseCounter (snd (increaseCounter stats_hits ''hits'' 1)) ''hits'' 1 = (True, stats_hits)"
    by (rule r [THEN conjunct2, THEN conjunct1])
  note q = increase_then_decrease_restores [of stats_hits "''misses''" 0 1,
      THEN conjunct2, rule_format, OF m]
  have n: "increaseCounter stats_hits ''misses'' 1 = (False, stats_hits)"
    "decreaseCounter stats_hits ''misses'' 1 = (False, stats_hits)"
    by (rule q [THEN conjunct1], rule q [THEN conjunct2])
  from h m s i d n show ?thesis
    by blast
qed

end
